theory Spec2Isabelle
  imports Main "HOL-Library.Word"
begin

unbundle bit_operations_syntax

section \<open>Merkle Patricia Trie of \<open>src/index.ts\<close>: data model\<close>

text \<open>
  A nibble is a 4-bit unit. The source holds a nibble as a one-character string, a
  lowercase hexadecimal digit: \<open>stringToNibbles\<close> makes nothing else, and every other
  nibble is a copy of one of its results or \<open>n.toString(16)\<close> of a number below 16.
  The model holds the nibble's number, so \<open>parseInt(nibble, 16)\<close> is \<open>unat\<close> and
  \<open>n.toString(16)\<close> is \<open>of_nat\<close>; \<open>hexChar\<close> gives the character back where the
  source puts nibbles into a content string. A nibble array (\<open>string[]\<close>) is a list;
  \<open>join('')\<close> and \<open>split('')\<close> of the stored runs are then the identity.

  Keys and values are strings of 8-bit characters (code units below 256).
\<close>

type_synonym nibble = "4 word"

definition hexDigits :: string where
  "hexDigits = ''0123456789abcdef''"

definition hexChar :: "nibble \<Rightarrow> char" where
  "hexChar n = hexDigits ! unat n"

definition joinNibbles :: "nibble list \<Rightarrow> string" where
  "joinNibbles ns = map hexChar ns"

text \<open>The constant table \<open>NodeType\<close>.\<close>

definition EXTENSION :: nat where "EXTENSION = 0"
definition EXTENSION_ODD :: nat where "EXTENSION_ODD = 1"
definition LEAF_EVEN :: nat where "LEAF_EVEN = 2"
definition LEAF_ODD :: nat where "LEAF_ODD = 3"

text \<open>
  \<open>TrieNode\<close>: a leaf (prefix, keyEnd, value), an extension (prefix, sharedNibbles,
  nextNode), a branch (children, value; \<open>null\<close> is \<open>None\<close>), and \<open>Other\<close>: an object
  whose \<open>type\<close> tag is none of the three, which is what the \<open>default\<close> arms of the
  source's switches receive.
\<close>

datatype node =
    Leaf nat "nibble list" string
  | Extension nat "nibble list" node
  | Branch "node option list" "string option"
  | Other

datatype error = UnknownNodeType

text \<open>The class \<open>MerklePatriciaTrie\<close>: its one field.\<close>

record MerklePatriciaTrie =
  root :: "node option"

definition newTrie :: MerklePatriciaTrie where
  "newTrie = \<lparr>root = None\<rparr>"

subsection \<open>Arrays as the source reads and writes them\<close>

text \<open>
  \<open>children[i]\<close> read past the end of a JavaScript array is \<open>undefined\<close>, which the
  source's tests (\<open>!child\<close>, \<open>child ? .. : ..\<close>) treat as \<open>null\<close>; an assignment past the
  end extends the array, the new gap reading as \<open>undefined\<close>.
\<close>

definition getChild :: "node option list \<Rightarrow> nat \<Rightarrow> node option" where
  "getChild children i = (if i < length children then children ! i else None)"

definition setChild :: "node option list \<Rightarrow> nat \<Rightarrow> node \<Rightarrow> node option list" where
  "setChild children i n =
     (if i < length children then children[i := Some n]
      else children @ replicate (i - length children) None @ [Some n])"

subsection \<open>Nibble codec\<close>

text \<open>The character class \<open>[0-9a-fA-F]\<close> and the pattern \<open>/^[0-9a-fA-F]+$/\<close>.\<close>

definition isHexChar :: "char \<Rightarrow> bool" where
  "isHexChar c \<longleftrightarrow> c \<in> set ''0123456789abcdefABCDEF''"

definition looksHexadecimal :: "string \<Rightarrow> bool" where
  "looksHexadecimal str \<longleftrightarrow> str \<noteq> [] \<and> list_all isHexChar str"

text \<open>\<open>toLowerCase\<close>, on the ASCII letters (it is applied to hexadecimal strings only).\<close>

definition toLowerCase :: "string \<Rightarrow> string" where
  "toLowerCase str =
     map (\<lambda>c. if 65 \<le> (of_char c :: nat) \<and> (of_char c :: nat) \<le> 90
              then char_of ((of_char c :: nat) + 32) else c) str"

text \<open>The nibble a lowercase hexadecimal digit stands for: its place in \<open>hexDigits\<close>.\<close>

fun indexOf :: "char \<Rightarrow> string \<Rightarrow> nat" where
  "indexOf c [] = 0"
| "indexOf c (d # ds) = (if c = d then 0 else Suc (indexOf c ds))"

definition nibbleOfHexChar :: "char \<Rightarrow> nibble" where
  "nibbleOfHexChar c = of_nat (indexOf c hexDigits)"

definition stringToNibbles :: "string \<Rightarrow> nibble list" where
  "stringToNibbles str =
     (if looksHexadecimal str then map nibbleOfHexChar (toLowerCase str)
      else concat (map (\<lambda>c. let byte = (of_char c :: nat)
                              in [of_nat (drop_bit 4 byte AND 0xF), of_nat (byte AND 0xF)]) str))"

subsection \<open>Prefix tag, common prefix, node constructors\<close>

definition encodePrefix :: "nibble list \<Rightarrow> bool \<Rightarrow> nat \<times> string" where
  "encodePrefix nibbles isLeaf =
     (let isOdd = (length nibbles mod 2 = 1);
          prefix = (if isLeaf then (if isOdd then LEAF_ODD else LEAF_EVEN)
                    else (if isOdd then EXTENSION_ODD else EXTENSION));
          encodedNibbles = joinNibbles nibbles
      in (prefix, if isOdd then CHR ''0'' # encodedNibbles else encodedNibbles))"

fun findCommonPrefix :: "nibble list \<Rightarrow> nibble list \<Rightarrow> nibble list" where
  "findCommonPrefix (x # xs) (y # ys) = (if x = y then x # findCommonPrefix xs ys else [])"
| "findCommonPrefix _ _ = []"

definition createBranchNode :: "string option \<Rightarrow> node" where
  "createBranchNode v = Branch (replicate 16 None) v"

definition createExtensionNode :: "nibble list \<Rightarrow> node \<Rightarrow> node" where
  "createExtensionNode sharedNibbles nextNode =
     Extension (fst (encodePrefix sharedNibbles False)) sharedNibbles nextNode"

definition createLeafNode :: "nibble list \<Rightarrow> string \<Rightarrow> node" where
  "createLeafNode keyEnd v = Leaf (fst (encodePrefix keyEnd True)) keyEnd v"

subsection \<open>Hash computation\<close>

text \<open>
  \<open>keccak256\<close> comes from the library \<open>js-sha3\<close>, which is not part of the repository:
  it is the parameter \<open>H\<close>. A number in a template literal is written in decimal.
\<close>

fun numberToString :: "nat \<Rightarrow> string" where
  "numberToString n =
     (if n < 10 then [''0123456789'' ! n]
      else numberToString (n div 10) @ [''0123456789'' ! (n mod 10)])"

fun calculateNodeHash :: "(string \<Rightarrow> string) \<Rightarrow> node \<Rightarrow> string" where
  "calculateNodeHash H (Branch children branchValue) =
     (let childHashes = map (\<lambda>child. case child of None \<Rightarrow> [] | Some c \<Rightarrow> calculateNodeHash H c) children;
          nodeData = concat childHashes @ (case branchValue of None \<Rightarrow> [] | Some s \<Rightarrow> s)
      in H nodeData)"
| "calculateNodeHash H (Extension prefix sharedNibbles nextNode) =
     (let nextHash = calculateNodeHash H nextNode;
          nodeData = numberToString prefix @ joinNibbles sharedNibbles @ nextHash
      in H nodeData)"
| "calculateNodeHash H (Leaf prefix keyEnd leafValue) =
     (let nodeData = numberToString prefix @ joinNibbles keyEnd @ leafValue
      in H nodeData)"
| "calculateNodeHash H Other = H []"

definition getRootHash :: "(string \<Rightarrow> string) \<Rightarrow> MerklePatriciaTrie \<Rightarrow> string" where
  "getRootHash H t = (case root t of None \<Rightarrow> H [] | Some r \<Rightarrow> calculateNodeHash H r)"

subsection \<open>Insertion\<close>

text \<open>
  The assignment \<open>branchNode.children[i] = n\<close> on a branch node, as a function that
  returns the node after it. (It is only ever applied to the branch that
  \<open>createBranchNode()\<close> has just made.) Where the source hands a node to a function, the
  model hands over the node's fields.
\<close>

fun assignChild :: "node \<Rightarrow> nat \<Rightarrow> node \<Rightarrow> node" where
  "assignChild (Branch children branchValue) i n = Branch (setChild children i n) branchValue"
| "assignChild node i n = node"

definition insertIntoLeaf :: "nat \<Rightarrow> nibble list \<Rightarrow> string \<Rightarrow> nibble list \<Rightarrow> string \<Rightarrow> node" where
  "insertIntoLeaf prefix keyEnd leafValue remainingKey v =
     (let leafKeyNibbles = keyEnd;
          commonPrefix = findCommonPrefix leafKeyNibbles remainingKey
      in if length commonPrefix = length leafKeyNibbles \<and> length commonPrefix = length remainingKey
         then createLeafNode remainingKey v
         else
           let branchNode0 = createBranchNode None;
               branchNode1 =
                 (if length commonPrefix < length leafKeyNibbles
                  then let leafRemainingKey = drop (length commonPrefix) leafKeyNibbles;
                           leafIndex = unat (hd leafRemainingKey)
                       in assignChild branchNode0 leafIndex
                            (createLeafNode (tl leafRemainingKey) leafValue)
                  else branchNode0);
               branchNode2 =
                 (if length commonPrefix < length remainingKey
                  then let newRemainingKey = drop (length commonPrefix) remainingKey;
                           newIndex = unat (hd newRemainingKey)
                       in assignChild branchNode1 newIndex (createLeafNode (tl newRemainingKey) v)
                  else branchNode1)
           in if length commonPrefix > 0 then createExtensionNode commonPrefix branchNode2
              else branchNode2)"

lemma getChild_size:
  "getChild children i = Some c \<Longrightarrow> size c < size_list (size_option size) children"
proof -
  assume a: "getChild children i = Some c"
  then have i: "i < length children" and c: "children ! i = Some c"
    by (auto simp: getChild_def split: if_splits)
  from i have "Some c \<in> set children" using c by (metis nth_mem)
  then have "size_option size (Some c) \<le> size_list (size_option size) children"
    by (simp add: size_list_estimation')
  then show ?thesis by simp
qed

function insertRecursive :: "node \<Rightarrow> nibble list \<Rightarrow> string \<Rightarrow> nat \<Rightarrow> error + node"
  and insertIntoExtension :: "nat \<Rightarrow> nibble list \<Rightarrow> node \<Rightarrow> nibble list \<Rightarrow> string \<Rightarrow> nat \<Rightarrow> error + node"
  and insertIntoBranch :: "node option list \<Rightarrow> string option \<Rightarrow> nibble list \<Rightarrow> string \<Rightarrow> error + node"
where
  "insertRecursive (Leaf prefix keyEnd leafValue) keyNibbles v depth =
     Inr (insertIntoLeaf prefix keyEnd leafValue (drop depth keyNibbles) v)"
| "insertRecursive (Extension prefix sharedNibbles nextNode) keyNibbles v depth =
     insertIntoExtension prefix sharedNibbles nextNode (drop depth keyNibbles) v depth"
| "insertRecursive (Branch children branchValue) keyNibbles v depth =
     insertIntoBranch children branchValue (drop depth keyNibbles) v"
| "insertRecursive Other keyNibbles v depth = Inl UnknownNodeType"
| "insertIntoExtension prefix sharedNibbles nextNode remainingKey v depth =
     (let extNibbles = sharedNibbles;
          commonPrefix = findCommonPrefix extNibbles remainingKey
      in if length commonPrefix = length extNibbles
         then (case insertRecursive nextNode (drop (length commonPrefix) remainingKey) v 0 of
                 Inl e \<Rightarrow> Inl e
               | Inr newNextNode \<Rightarrow> Inr (createExtensionNode extNibbles newNextNode))
         else
           let branchNode0 = createBranchNode None;
               extRemainingKey = drop (length commonPrefix) extNibbles;
               newRemainingKey = drop (length commonPrefix) remainingKey;
               branchNode1 =
                 (if length extRemainingKey > 0
                  then let extIndex = unat (hd extRemainingKey)
                       in if length extRemainingKey > 1
                          then assignChild branchNode0 extIndex
                                 (createExtensionNode (tl extRemainingKey) nextNode)
                          else assignChild branchNode0 extIndex nextNode
                  else branchNode0);
               branchNode2 =
                 (if length newRemainingKey > 0
                  then let newIndex = unat (hd newRemainingKey)
                       in assignChild branchNode1 newIndex (createLeafNode newRemainingKey v)
                  else branchNode1)
           in if length commonPrefix > 0 then Inr (createExtensionNode commonPrefix branchNode2)
              else Inr branchNode2)"
| "insertIntoBranch children branchValue remainingKey v =
     (if length remainingKey = 0 then Inr (Branch children (Some v))
      else
        let index = unat (hd remainingKey);
            restKey = tl remainingKey
        in case getChild children index of
             None \<Rightarrow> Inr (Branch (setChild children index (createLeafNode remainingKey v)) branchValue)
           | Some child \<Rightarrow>
               (case insertRecursive child restKey v 0 of
                  Inl e \<Rightarrow> Inl e
                | Inr newChild \<Rightarrow> Inr (Branch (setChild children index newChild) branchValue)))"
  by pat_completeness auto
termination
  by (relation "measure (\<lambda>x. case x of
        Inl (n, _) \<Rightarrow> 2 * size n + 1
      | Inr (Inl (_, _, n, _)) \<Rightarrow> 2 * size n + 2
      | Inr (Inr (children, _)) \<Rightarrow> 2 * size_list (size_option size) children + 2)")
     (auto dest: getChild_size)

definition insert_mpt :: "MerklePatriciaTrie \<Rightarrow> string \<Rightarrow> string \<Rightarrow> error + MerklePatriciaTrie" where
  "insert_mpt t key v =
     (let keyNibbles = stringToNibbles key
      in case root t of
           None \<Rightarrow> Inr (t\<lparr>root := Some (createLeafNode keyNibbles v)\<rparr>)
         | Some r \<Rightarrow>
             (case insertRecursive r keyNibbles v 0 of
                Inl e \<Rightarrow> Inl e
              | Inr newRoot \<Rightarrow> Inr (t\<lparr>root := Some newRoot\<rparr>)))"

subsection \<open>Lookup\<close>

definition arraysEqual :: "nibble list \<Rightarrow> nibble list \<Rightarrow> bool" where
  "arraysEqual arr1 arr2 \<longleftrightarrow>
     (if length arr1 \<noteq> length arr2 then False
      else list_all (\<lambda>i. arr1 ! i = arr2 ! i) [0..<length arr1])"

definition findBranchIndex :: "nibble list \<Rightarrow> int \<Rightarrow> nat option" where
  "findBranchIndex keyNibbles depth =
     (if depth < 0 \<or> depth \<ge> int (length keyNibbles) then None
      else Some (unat (keyNibbles ! nat depth)))"

function getRecursive :: "node \<Rightarrow> nibble list \<Rightarrow> nat \<Rightarrow> string option" where
  "getRecursive (Leaf prefix keyEnd leafValue) keyNibbles depth =
     (let remainingKey = drop depth keyNibbles;
          leafKeyNibbles = keyEnd;
          keyToCompare =
            (if length remainingKey < length leafKeyNibbles
             then (case findBranchIndex keyNibbles (int depth - 1) of
                     Some branchIndex \<Rightarrow> of_nat branchIndex # remainingKey
                   | None \<Rightarrow> remainingKey)
             else remainingKey);
          isEqual = arraysEqual leafKeyNibbles keyToCompare
      in if isEqual then Some leafValue else None)"
| "getRecursive (Extension prefix sharedNibbles nextNode) keyNibbles depth =
     (let remainingKey = drop depth keyNibbles;
          extNibbles = sharedNibbles
      in if length remainingKey < length extNibbles
            \<or> \<not> arraysEqual extNibbles (take (length extNibbles) remainingKey)
         then None
         else getRecursive nextNode keyNibbles (depth + length extNibbles))"
| "getRecursive (Branch children branchValue) keyNibbles depth =
     (let remainingKey = drop depth keyNibbles
      in if length remainingKey = 0 then branchValue
         else let index = unat (hd remainingKey)
              in case getChild children index of
                   Some child \<Rightarrow> getRecursive child keyNibbles (depth + 1)
                 | None \<Rightarrow> None)"
| "getRecursive Other keyNibbles depth = None"
  by pat_completeness auto
termination
  by (relation "measure (\<lambda>(n, _, _). size n)") (auto dest: getChild_size)

definition get_mpt :: "MerklePatriciaTrie \<Rightarrow> string \<Rightarrow> string option" where
  "get_mpt t key =
     (case root t of
        None \<Rightarrow> None
      | Some r \<Rightarrow> (let keyNibbles = stringToNibbles key in getRecursive r keyNibbles 0))"

text \<open>A sequence of public inserts, from a given trie; an exception ends it.\<close>

fun inserts :: "MerklePatriciaTrie \<Rightarrow> (string \<times> string) list \<Rightarrow> error + MerklePatriciaTrie" where
  "inserts t [] = Inr t"
| "inserts t ((k, v) # ops) =
     (case insert_mpt t k v of Inl e \<Rightarrow> Inl e | Inr t' \<Rightarrow> inserts t' ops)"

subsection \<open>Recursion depth\<close>

text \<open>
  The number of nested calls of \<open>getRecursive\<close> that \<open>getRecursive node keyNibbles depth\<close>
  makes below itself: the same tests as \<open>getRecursive\<close>, counting one for each call.
\<close>

function getRecursive_depth :: "node \<Rightarrow> nibble list \<Rightarrow> nat \<Rightarrow> nat" where
  "getRecursive_depth (Leaf prefix keyEnd leafValue) keyNibbles depth = 0"
| "getRecursive_depth (Extension prefix sharedNibbles nextNode) keyNibbles depth =
     (let remainingKey = drop depth keyNibbles;
          extNibbles = sharedNibbles
      in if length remainingKey < length extNibbles
            \<or> \<not> arraysEqual extNibbles (take (length extNibbles) remainingKey)
         then 0
         else 1 + getRecursive_depth nextNode keyNibbles (depth + length extNibbles))"
| "getRecursive_depth (Branch children branchValue) keyNibbles depth =
     (let remainingKey = drop depth keyNibbles
      in if length remainingKey = 0 then 0
         else let index = unat (hd remainingKey)
              in case getChild children index of
                   Some child \<Rightarrow> 1 + getRecursive_depth child keyNibbles (depth + 1)
                 | None \<Rightarrow> 0)"
| "getRecursive_depth Other keyNibbles depth = 0"
  by pat_completeness auto
termination
  by (relation "measure (\<lambda>(n, _, _). size n)") (auto dest: getChild_size)

text \<open>
  The number of nested calls of \<open>insertRecursive\<close> that
  \<open>insertRecursive node keyNibbles value depth\<close> makes below itself, through
  \<open>insertIntoExtension\<close> (its run is a prefix of the remaining key) and
  \<open>insertIntoBranch\<close> (the remaining key is not empty and its slot is taken).
\<close>

function insertRecursive_depth :: "node \<Rightarrow> nibble list \<Rightarrow> nat \<Rightarrow> nat" where
  "insertRecursive_depth (Leaf prefix keyEnd leafValue) keyNibbles depth = 0"
| "insertRecursive_depth (Extension prefix sharedNibbles nextNode) keyNibbles depth =
     (let remainingKey = drop depth keyNibbles;
          extNibbles = sharedNibbles;
          commonPrefix = findCommonPrefix extNibbles remainingKey
      in if length commonPrefix = length extNibbles
         then 1 + insertRecursive_depth nextNode (drop (length commonPrefix) remainingKey) 0
         else 0)"
| "insertRecursive_depth (Branch children branchValue) keyNibbles depth =
     (let remainingKey = drop depth keyNibbles
      in if length remainingKey = 0 then 0
         else let index = unat (hd remainingKey);
                  restKey = tl remainingKey
              in case getChild children index of
                   None \<Rightarrow> 0
                 | Some child \<Rightarrow> 1 + insertRecursive_depth child restKey 0)"
| "insertRecursive_depth Other keyNibbles depth = 0"
  by pat_completeness auto
termination
  by (relation "measure (\<lambda>(n, _, _). size n)") (auto dest: getChild_size)

text \<open>
  \<open>getRecursive\<close> with a counter: the same body, returning with the result the number
  of nested calls it has made below itself. Its first component is \<open>getRecursive\<close> and
  its second is \<open>getRecursive_depth\<close> (\<open>getRecursive_traced_eq\<close> below).
\<close>

function getRecursive_traced :: "node \<Rightarrow> nibble list \<Rightarrow> nat \<Rightarrow> string option \<times> nat" where
  "getRecursive_traced (Leaf prefix keyEnd leafValue) keyNibbles depth =
     (let remainingKey = drop depth keyNibbles;
          leafKeyNibbles = keyEnd;
          keyToCompare =
            (if length remainingKey < length leafKeyNibbles
             then (case findBranchIndex keyNibbles (int depth - 1) of
                     Some branchIndex \<Rightarrow> of_nat branchIndex # remainingKey
                   | None \<Rightarrow> remainingKey)
             else remainingKey);
          isEqual = arraysEqual leafKeyNibbles keyToCompare
      in (if isEqual then Some leafValue else None, 0))"
| "getRecursive_traced (Extension prefix sharedNibbles nextNode) keyNibbles depth =
     (let remainingKey = drop depth keyNibbles;
          extNibbles = sharedNibbles
      in if length remainingKey < length extNibbles
            \<or> \<not> arraysEqual extNibbles (take (length extNibbles) remainingKey)
         then (None, 0)
         else (case getRecursive_traced nextNode keyNibbles (depth + length extNibbles) of
                 (result, calls) \<Rightarrow> (result, 1 + calls)))"
| "getRecursive_traced (Branch children branchValue) keyNibbles depth =
     (let remainingKey = drop depth keyNibbles
      in if length remainingKey = 0 then (branchValue, 0)
         else let index = unat (hd remainingKey)
              in case getChild children index of
                   Some child \<Rightarrow>
                     (case getRecursive_traced child keyNibbles (depth + 1) of
                        (result, calls) \<Rightarrow> (result, 1 + calls))
                 | None \<Rightarrow> (None, 0))"
| "getRecursive_traced Other keyNibbles depth = (None, 0)"
  by pat_completeness auto
termination
  by (relation "measure (\<lambda>(n, _, _). size n)") (auto dest: getChild_size)

text \<open>
  \<open>insertRecursive\<close>, \<open>insertIntoExtension\<close> and \<open>insertIntoBranch\<close> with a counter: the
  same bodies, returning with the result the number of nested calls of
  \<open>insertRecursive\<close> made below. The first component is the function itself and the
  second is \<open>insertRecursive_depth\<close> (\<open>insert_traced_eq\<close> below).
\<close>

function insertRecursive_traced :: "node \<Rightarrow> nibble list \<Rightarrow> string \<Rightarrow> nat \<Rightarrow> (error + node) \<times> nat"
  and insertIntoExtension_traced ::
    "nat \<Rightarrow> nibble list \<Rightarrow> node \<Rightarrow> nibble list \<Rightarrow> string \<Rightarrow> nat \<Rightarrow> (error + node) \<times> nat"
  and insertIntoBranch_traced ::
    "node option list \<Rightarrow> string option \<Rightarrow> nibble list \<Rightarrow> string \<Rightarrow> (error + node) \<times> nat"
where
  "insertRecursive_traced (Leaf prefix keyEnd leafValue) keyNibbles v depth =
     (Inr (insertIntoLeaf prefix keyEnd leafValue (drop depth keyNibbles) v), 0)"
| "insertRecursive_traced (Extension prefix sharedNibbles nextNode) keyNibbles v depth =
     insertIntoExtension_traced prefix sharedNibbles nextNode (drop depth keyNibbles) v depth"
| "insertRecursive_traced (Branch children branchValue) keyNibbles v depth =
     insertIntoBranch_traced children branchValue (drop depth keyNibbles) v"
| "insertRecursive_traced Other keyNibbles v depth = (Inl UnknownNodeType, 0)"
| "insertIntoExtension_traced prefix sharedNibbles nextNode remainingKey v depth =
     (let extNibbles = sharedNibbles;
          commonPrefix = findCommonPrefix extNibbles remainingKey
      in if length commonPrefix = length extNibbles
         then (case insertRecursive_traced nextNode (drop (length commonPrefix) remainingKey) v 0 of
                 (result, calls) \<Rightarrow>
                   (case result of
                      Inl e \<Rightarrow> Inl e
                    | Inr newNextNode \<Rightarrow> Inr (createExtensionNode extNibbles newNextNode),
                    1 + calls))
         else
           let branchNode0 = createBranchNode None;
               extRemainingKey = drop (length commonPrefix) extNibbles;
               newRemainingKey = drop (length commonPrefix) remainingKey;
               branchNode1 =
                 (if length extRemainingKey > 0
                  then let extIndex = unat (hd extRemainingKey)
                       in if length extRemainingKey > 1
                          then assignChild branchNode0 extIndex
                                 (createExtensionNode (tl extRemainingKey) nextNode)
                          else assignChild branchNode0 extIndex nextNode
                  else branchNode0);
               branchNode2 =
                 (if length newRemainingKey > 0
                  then let newIndex = unat (hd newRemainingKey)
                       in assignChild branchNode1 newIndex (createLeafNode newRemainingKey v)
                  else branchNode1)
           in if length commonPrefix > 0 then (Inr (createExtensionNode commonPrefix branchNode2), 0)
              else (Inr branchNode2, 0))"
| "insertIntoBranch_traced children branchValue remainingKey v =
     (if length remainingKey = 0 then (Inr (Branch children (Some v)), 0)
      else
        let index = unat (hd remainingKey);
            restKey = tl remainingKey
        in case getChild children index of
             None \<Rightarrow>
               (Inr (Branch (setChild children index (createLeafNode remainingKey v)) branchValue), 0)
           | Some child \<Rightarrow>
               (case insertRecursive_traced child restKey v 0 of
                  (result, calls) \<Rightarrow>
                    (case result of
                       Inl e \<Rightarrow> Inl e
                     | Inr newChild \<Rightarrow> Inr (Branch (setChild children index newChild) branchValue),
                     1 + calls)))"
  by pat_completeness auto
termination
  by (relation "measure (\<lambda>x. case x of
        Inl (n, _) \<Rightarrow> 2 * size n + 1
      | Inr (Inl (_, _, n, _)) \<Rightarrow> 2 * size n + 2
      | Inr (Inr (children, _)) \<Rightarrow> 2 * size_list (size_option size) children + 2)")
     (auto dest: getChild_size)

subsection \<open>Predicates used by the claims\<close>

text \<open>
  A tree of the three known node kinds in which no extension has an empty run
  (invariant 2 of the data model).
\<close>

fun wellFormed :: "node \<Rightarrow> bool" where
  "wellFormed (Leaf prefix keyEnd leafValue) = True"
| "wellFormed (Extension prefix sharedNibbles nextNode) =
     (sharedNibbles \<noteq> [] \<and> wellFormed nextNode)"
| "wellFormed (Branch children branchValue) =
     list_all (\<lambda>child. case child of None \<Rightarrow> True | Some c \<Rightarrow> wellFormed c) children"
| "wellFormed Other = False"

text \<open>The children a branch holds, in slot order, the empty slots left out.\<close>

fun presentChildren :: "node option list \<Rightarrow> node list" where
  "presentChildren [] = []"
| "presentChildren (None # children) = presentChildren children"
| "presentChildren (Some c # children) = c # presentChildren children"

section \<open>Helper facts\<close>

declare insertIntoExtension.simps [simp del] insertIntoBranch.simps [simp del]

declare insertIntoExtension_traced.simps [simp del] insertIntoBranch_traced.simps [simp del]

lemma replicate_16:
  "replicate 16 x = [x, x, x, x, x, x, x, x, x, x, x, x, x, x, x, x]"
  by (simp add: numeral_eq_Suc)

lemma arraysEqual_iff: "arraysEqual xs ys \<longleftrightarrow> xs = ys"
proof
  assume "arraysEqual xs ys"
  then have "length xs = length ys" and "\<forall>i<length xs. xs ! i = ys ! i"
    by (auto simp: arraysEqual_def list_all_iff split: if_splits)
  then show "xs = ys" by (simp add: nth_equalityI)
next
  assume "xs = ys"
  then show "arraysEqual xs ys" by (simp add: arraysEqual_def list_all_iff)
qed

lemma getChild_setChild: "getChild (setChild children i n) i = Some n"
  by (simp add: getChild_def setChild_def nth_append)

lemma drop_pred:
  "0 < d \<Longrightarrow> d \<le> length xs \<Longrightarrow> drop (d - 1) xs = xs ! (d - 1) # drop d xs"
proof -
  assume a: "0 < d" "d \<le> length xs"
  then have "d - 1 < length xs" by simp
  then have "drop (d - 1) xs = xs ! (d - 1) # drop (Suc (d - 1)) xs"
    by (rule Cons_nth_drop_Suc [symmetric])
  with a show ?thesis by simp
qed

lemma findBranchIndex_pred:
  "findBranchIndex keyNibbles (int depth - 1) =
     (if 0 < depth \<and> depth \<le> length keyNibbles then Some (unat (keyNibbles ! (depth - 1))) else None)"
  by (auto simp: findBranchIndex_def nat_diff_distrib')

lemma findCommonPrefix_length_le:
  "length (findCommonPrefix xs ys) \<le> length xs \<and> length (findCommonPrefix xs ys) \<le> length ys"
  by (induction xs ys rule: findCommonPrefix.induct) auto

lemma stringToNibbles_length: "length (stringToNibbles key) \<le> 2 * length key"
proof -
  have "length (concat (map (\<lambda>c. let byte = (of_char c :: nat)
            in [of_nat (drop_bit 4 byte AND 0xF) :: nibble, of_nat (byte AND 0xF)]) key)) = 2 * length key"
    by (induction key) (simp_all add: Let_def)
  then show ?thesis
    by (simp add: stringToNibbles_def toLowerCase_def)
qed

subsection \<open>Well-formed trees\<close>

lemma wellFormed_createLeafNode [simp]: "wellFormed (createLeafNode k v)"
  by (simp add: createLeafNode_def)

lemma wellFormed_createExtensionNode [simp]:
  "wellFormed (createExtensionNode e n) \<longleftrightarrow> e \<noteq> [] \<and> wellFormed n"
  by (simp add: createExtensionNode_def)

lemma list_all_setChild:
  "list_all (\<lambda>child. case child of None \<Rightarrow> True | Some c \<Rightarrow> P c) children \<Longrightarrow> P n \<Longrightarrow>
   list_all (\<lambda>child. case child of None \<Rightarrow> True | Some c \<Rightarrow> P c) (setChild children i n)"
  by (auto simp: setChild_def list_all_iff dest!: set_update_subset_insert [THEN subsetD])

lemma list_all_getChild:
  "list_all (\<lambda>child. case child of None \<Rightarrow> True | Some c \<Rightarrow> P c) children \<Longrightarrow>
   getChild children i = Some c \<Longrightarrow> P c"
  by (auto simp: getChild_def list_all_iff split: if_splits dest!: nth_mem)

lemma list_all_replicate_None:
  "list_all (\<lambda>child. case child of None \<Rightarrow> True | Some c \<Rightarrow> P c) (replicate n None)"
  by (simp add: list_all_iff)

lemma wellFormed_insertIntoLeaf: "wellFormed (insertIntoLeaf prefix keyEnd leafValue remainingKey v)"
proof -
  have "length (findCommonPrefix keyEnd remainingKey) > 0 \<Longrightarrow> findCommonPrefix keyEnd remainingKey \<noteq> []"
    by auto
  then show ?thesis
    by (auto simp: insertIntoLeaf_def createBranchNode_def Let_def
        intro!: list_all_setChild list_all_replicate_None)
qed

text \<open>Insertion into a well-formed tree returns, and returns a well-formed tree.\<close>

lemma insert_preserves_wellFormed:
  shows "wellFormed n \<Longrightarrow> \<exists>n'. insertRecursive n k v d = Inr n' \<and> wellFormed n'"
    and "e \<noteq> [] \<Longrightarrow> wellFormed nx \<Longrightarrow>
         \<exists>n'. insertIntoExtension p e nx R v d = Inr n' \<and> wellFormed n'"
    and "list_all (\<lambda>child. case child of None \<Rightarrow> True | Some c \<Rightarrow> wellFormed c) cs \<Longrightarrow>
         \<exists>n'. insertIntoBranch cs bv R v = Inr n' \<and> wellFormed n'"
proof (induction n k v d and p e nx R v d and cs bv R v
       rule: insertRecursive_insertIntoExtension_insertIntoBranch.induct)
  case (1 prefix keyEnd leafValue keyNibbles v depth)
  then show ?case by (simp add: wellFormed_insertIntoLeaf)
next
  case (2 prefix sharedNibbles nextNode keyNibbles v depth)
  then show ?case by simp
next
  case (3 children branchValue keyNibbles v depth)
  then show ?case by simp
next
  case (4 keyNibbles v depth)
  then show ?case by simp
next
  case (5 prefix sharedNibbles nextNode remainingKey v depth)
  show ?case
  proof (cases "length (findCommonPrefix sharedNibbles remainingKey) = length sharedNibbles")
    case True
    from "5.IH" [OF refl refl True "5.prems"(2)]
    obtain n' where "insertRecursive nextNode
        (drop (length (findCommonPrefix sharedNibbles remainingKey)) remainingKey) v 0 = Inr n'"
      and "wellFormed n'" by blast
    with True "5.prems"(1) show ?thesis
      by (simp add: insertIntoExtension.simps Let_def)
  next
    case False
    have tl_ne: "1 < length (drop (length (findCommonPrefix sharedNibbles remainingKey)) sharedNibbles)
        \<Longrightarrow> tl (drop (length (findCommonPrefix sharedNibbles remainingKey)) sharedNibbles) \<noteq> []"
      by (cases "drop (length (findCommonPrefix sharedNibbles remainingKey)) sharedNibbles") auto
    have c_ne: "0 < length (findCommonPrefix sharedNibbles remainingKey)
        \<Longrightarrow> findCommonPrefix sharedNibbles remainingKey \<noteq> []" by auto
    show ?thesis using False "5.prems"(2) tl_ne c_ne
      by (auto simp: insertIntoExtension.simps createBranchNode_def Let_def
          intro!: list_all_setChild list_all_replicate_None)
  qed
next
  case (6 children branchValue remainingKey v)
  show ?case
  proof (cases "length remainingKey = 0")
    case True
    with "6.prems" show ?thesis by (simp add: insertIntoBranch.simps)
  next
    case False
    show ?thesis
    proof (cases "getChild children (unat (hd remainingKey))")
      case None
      with False "6.prems" show ?thesis
        by (auto simp: insertIntoBranch.simps Let_def intro!: list_all_setChild)
    next
      case (Some child)
      from "6.prems" Some have "wellFormed child"
        by (auto dest: list_all_getChild [where P = wellFormed])
      from "6.IH" [OF False refl refl Some this]
      obtain n' where "insertRecursive child (tl remainingKey) v 0 = Inr n'" and "wellFormed n'"
        by blast
      with False Some "6.prems" show ?thesis
        by (auto simp: insertIntoBranch.simps Let_def intro!: list_all_setChild)
    qed
  qed
qed

lemma insert_mpt_wellFormed:
  assumes "\<forall>r. root t = Some r \<longrightarrow> wellFormed r"
  shows "\<exists>t'. insert_mpt t key v = Inr t' \<and> (\<forall>r. root t' = Some r \<longrightarrow> wellFormed r)"
proof (cases "root t")
  case None
  then show ?thesis by (simp add: insert_mpt_def)
next
  case (Some r)
  with assms have "wellFormed r" by simp
  from insert_preserves_wellFormed(1) [OF this, of "stringToNibbles key" v 0]
  obtain n' where "insertRecursive r (stringToNibbles key) v 0 = Inr n'" and "wellFormed n'" by blast
  with Some show ?thesis by (simp add: insert_mpt_def)
qed

lemma inserts_wellFormed:
  "\<forall>r. root t = Some r \<longrightarrow> wellFormed r \<Longrightarrow>
   \<exists>t'. inserts t ops = Inr t' \<and> (\<forall>r. root t' = Some r \<longrightarrow> wellFormed r)"
proof (induction ops arbitrary: t)
  case Nil
  then show ?case by simp
next
  case (Cons op ops)
  obtain k v where op: "op = (k, v)" by (cases op)
  from insert_mpt_wellFormed [OF Cons.prems, of k v]
  obtain t' where t': "insert_mpt t k v = Inr t'" and wf: "\<forall>r. root t' = Some r \<longrightarrow> wellFormed r"
    by blast
  from Cons.IH [OF wf] t' op show ?case by simp
qed

subsection \<open>Depth of the recursion in a well-formed tree\<close>

lemma getRecursive_depth_le:
  "wellFormed n \<Longrightarrow> getRecursive_depth n k d \<le> length k - d"
proof (induction n k d rule: getRecursive_depth.induct)
  case (1 prefix keyEnd leafValue keyNibbles depth)
  then show ?case by simp
next
  case (2 prefix sharedNibbles nextNode keyNibbles depth)
  show ?case
  proof (cases "length (drop depth keyNibbles) < length sharedNibbles
      \<or> \<not> arraysEqual sharedNibbles (take (length sharedNibbles) (drop depth keyNibbles))")
    case True
    then show ?thesis by (auto simp: Let_def)
  next
    case False
    from "2.prems" have ne: "0 < length sharedNibbles" and wf: "wellFormed nextNode" by simp_all
    from False have le: "length sharedNibbles \<le> length keyNibbles - depth" by simp
    have "getRecursive_depth nextNode keyNibbles (depth + length sharedNibbles)
          \<le> length keyNibbles - (depth + length sharedNibbles)"
      using "2.IH" [OF refl refl False wf] .
    with le ne have "1 + getRecursive_depth nextNode keyNibbles (depth + length sharedNibbles)
          \<le> length keyNibbles - depth" by arith
    with False show ?thesis by (simp add: Let_def)
  qed
next
  case (3 children branchValue keyNibbles depth)
  show ?case
  proof (cases "length (drop depth keyNibbles) = 0")
    case True
    then show ?thesis by simp
  next
    case False
    show ?thesis
    proof (cases "getChild children (unat (hd (drop depth keyNibbles)))")
      case None
      with False show ?thesis by simp
    next
      case (Some child)
      from "3.prems" Some have "wellFormed child"
        by (auto dest: list_all_getChild [where P = wellFormed])
      with "3.IH" [OF refl False refl Some]
      have "getRecursive_depth child keyNibbles (depth + 1) \<le> length keyNibbles - (depth + 1)"
        by simp
      with False Some show ?thesis by simp
    qed
  qed
next
  case (4 keyNibbles depth)
  then show ?case by simp
qed

lemma insertRecursive_depth_le:
  "wellFormed n \<Longrightarrow> insertRecursive_depth n k d \<le> length k - d"
proof (induction n k d rule: insertRecursive_depth.induct)
  case (1 prefix keyEnd leafValue keyNibbles depth)
  then show ?case by simp
next
  case (2 prefix sharedNibbles nextNode keyNibbles depth)
  show ?case
  proof (cases "length (findCommonPrefix sharedNibbles (drop depth keyNibbles)) = length sharedNibbles")
    case True
    from "2.prems" have ne: "sharedNibbles \<noteq> []" and wf: "wellFormed nextNode" by simp_all
    have le: "length sharedNibbles \<le> length keyNibbles - depth"
      using findCommonPrefix_length_le [of sharedNibbles "drop depth keyNibbles"] True by simp
    have "insertRecursive_depth nextNode
            (drop (length (findCommonPrefix sharedNibbles (drop depth keyNibbles))) (drop depth keyNibbles)) 0
          \<le> length (drop (length (findCommonPrefix sharedNibbles (drop depth keyNibbles))) (drop depth keyNibbles)) - 0"
      using "2.IH" [OF refl refl refl True wf] .
    with True le ne show ?thesis by (cases sharedNibbles) (simp_all add: Let_def)
  next
    case False
    then show ?thesis by (simp add: Let_def)
  qed
next
  case (3 children branchValue keyNibbles depth)
  show ?case
  proof (cases "length (drop depth keyNibbles) = 0")
    case True
    then show ?thesis by simp
  next
    case False
    show ?thesis
    proof (cases "getChild children (unat (hd (drop depth keyNibbles)))")
      case None
      with False show ?thesis by simp
    next
      case (Some child)
      from "3.prems" Some have "wellFormed child"
        by (auto dest: list_all_getChild [where P = wellFormed])
      with "3.IH" [OF refl False refl refl Some]
      have "insertRecursive_depth child (tl (drop depth keyNibbles)) 0
            \<le> length (tl (drop depth keyNibbles)) - 0" by simp
      with False Some show ?thesis by (simp add: Let_def)
    qed
  qed
next
  case (4 keyNibbles depth)
  then show ?case by simp
qed

subsection \<open>The functions with a counter are the functions, and the counters\<close>

lemma getRecursive_traced_eq:
  "getRecursive_traced n k d = (getRecursive n k d, getRecursive_depth n k d)"
  by (induction n k d rule: getRecursive_traced.induct)
     (auto simp: Let_def split: option.splits)

lemma insert_traced_eq:
  shows "insertRecursive_traced n k v d = (insertRecursive n k v d, insertRecursive_depth n k d)"
    and "insertIntoExtension_traced p e nx R v d =
           (insertIntoExtension p e nx R v d, insertRecursive_depth (Extension p e nx) R 0)"
    and "insertIntoBranch_traced cs bv R v =
           (insertIntoBranch cs bv R v, insertRecursive_depth (Branch cs bv) R 0)"
proof (induction n k v d and p e nx R v d and cs bv R v
       rule: insertRecursive_traced_insertIntoExtension_traced_insertIntoBranch_traced.induct)
  case (1 prefix keyEnd leafValue keyNibbles v depth)
  then show ?case by simp
next
  case (2 prefix sharedNibbles nextNode keyNibbles v depth)
  then show ?case by (simp add: Let_def)
next
  case (3 children branchValue keyNibbles v depth)
  then show ?case by (simp add: Let_def)
next
  case (4 keyNibbles v depth)
  then show ?case by simp
next
  case (5 prefix sharedNibbles nextNode remainingKey v depth)
  show ?case
  proof (cases "length (findCommonPrefix sharedNibbles remainingKey) = length sharedNibbles")
    case True
    with "5.IH" [OF refl refl True] show ?thesis
      by (simp add: insertIntoExtension_traced.simps insertIntoExtension.simps Let_def)
  next
    case False
    then show ?thesis
      by (simp add: insertIntoExtension_traced.simps insertIntoExtension.simps Let_def)
  qed
next
  case (6 children branchValue remainingKey v)
  show ?case
  proof (cases "length remainingKey = 0")
    case True
    then show ?thesis
      by (simp add: insertIntoBranch_traced.simps insertIntoBranch.simps)
  next
    case False
    show ?thesis
    proof (cases "getChild children (unat (hd remainingKey))")
      case None
      with False show ?thesis
        by (simp add: insertIntoBranch_traced.simps insertIntoBranch.simps Let_def)
    next
      case (Some child)
      with False "6.IH" [OF False refl refl Some] show ?thesis
        by (simp add: insertIntoBranch_traced.simps insertIntoBranch.simps Let_def)
    qed
  qed
qed

subsection \<open>The content a branch hashes\<close>

lemma concat_child_hashes:
  "concat (map (\<lambda>child. case child of None \<Rightarrow> [] | Some c \<Rightarrow> calculateNodeHash H c) children) =
   concat (map (calculateNodeHash H) (presentChildren children))"
  by (induction children rule: presentChildren.induct) simp_all

section \<open>The claims\<close>

text \<open>
  C1 (round trip: \<open>insert(k, v)\<close> then \<open>get(k)\<close> returns \<open>v\<close>, from any reachable trie).
  The code does not do this. In the trie reached by \<open>insert('a71355', '45.0ETH')\<close>,
  \<open>insert('a7', 'x')\<close> splits the root leaf in \<open>insertIntoLeaf\<close>: the common prefix is the
  whole new key, so no child is made for it, and the new branch keeps the value \<open>null\<close>.
  \<open>get('a7')\<close> then reaches that branch with no nibble left and returns \<open>null\<close>.
\<close>

theorem round_trip_fails_for_prefix_key:
  "inserts newTrie [(''a71355'', ''45.0ETH''), (''a7'', ''x'')] =
     Inr \<lparr>root = Some (Extension 0 [0xa, 7]
           (Branch ((replicate 16 None)[1 := Some (Leaf 3 [3, 5, 5] ''45.0ETH'')]) None))\<rparr> \<and>
   get_mpt \<lparr>root = Some (Extension 0 [0xa, 7]
           (Branch ((replicate 16 None)[1 := Some (Leaf 3 [3, 5, 5] ''45.0ETH'')]) None))\<rparr> ''a7'' = None"
  by code_simp

text \<open>
  C2 (a key that is a strict prefix of another: the branch's own value receives the
  shorter key's value, and both values stay retrievable). The code makes no child for
  the shorter key, as the claim says, but it never sets the branch's value: after
  \<open>a7\<close> and \<open>a71355\<close> in either order the trie is the same, \<open>get('a71355')\<close> finds
  its value and \<open>get('a7')\<close> returns \<open>null\<close>. The split of an extension drops the value
  the same way: after \<open>a71355\<close> and \<open>a77d337\<close> the root is an extension over \<open>a7\<close>,
  and \<open>insert('a', 'x')\<close> leaves \<open>get('a')\<close> returning \<open>null\<close>.
\<close>

theorem prefix_key_value_dropped:
  "inserts newTrie [(''a7'', ''x''), (''a71355'', ''y'')] =
     Inr \<lparr>root = Some (Extension 0 [0xa, 7]
           (Branch ((replicate 16 None)[1 := Some (Leaf 3 [3, 5, 5] ''y'')]) None))\<rparr> \<and>
   inserts newTrie [(''a71355'', ''y''), (''a7'', ''x'')] =
     Inr \<lparr>root = Some (Extension 0 [0xa, 7]
           (Branch ((replicate 16 None)[1 := Some (Leaf 3 [3, 5, 5] ''y'')]) None))\<rparr> \<and>
   get_mpt \<lparr>root = Some (Extension 0 [0xa, 7]
           (Branch ((replicate 16 None)[1 := Some (Leaf 3 [3, 5, 5] ''y'')]) None))\<rparr> ''a7'' = None \<and>
   get_mpt \<lparr>root = Some (Extension 0 [0xa, 7]
           (Branch ((replicate 16 None)[1 := Some (Leaf 3 [3, 5, 5] ''y'')]) None))\<rparr> ''a71355'' = Some ''y'' \<and>
   inserts newTrie [(''a71355'', ''y''), (''a77d337'', ''z''), (''a'', ''x'')] =
     Inr \<lparr>root = Some (Extension 1 [0xa]
           (Branch ((replicate 16 None)[7 := Some
              (Branch ((replicate 16 None)[1 := Some (Leaf 3 [3, 5, 5] ''y''),
                                           7 := Some (Leaf 2 [0xd, 3, 3, 7] ''z'')]) None)]) None))\<rparr> \<and>
   get_mpt \<lparr>root = Some (Extension 1 [0xa]
           (Branch ((replicate 16 None)[7 := Some
              (Branch ((replicate 16 None)[1 := Some (Leaf 3 [3, 5, 5] ''y''),
                                           7 := Some (Leaf 2 [0xd, 3, 3, 7] ''z'')]) None)]) None))\<rparr> ''a'' = None"
  by code_simp

text \<open>
  C3 (inserting a key twice leaves the second value retrievable, and changes neither
  the node count on the key's path nor the shape). The code does not do this for a key
  whose leaf was made by \<open>insertIntoBranch\<close>. After \<open>1\<close>, \<open>2\<close> and \<open>3\<close> the leaf in slot 3
  stores the run \<open>3\<close>, the selecting nibble included. The second \<open>insert('3', 'd')\<close>
  compares that run with the empty remaining key in \<open>insertIntoLeaf\<close>, finds them
  different and replaces the leaf by a branch over a leaf that still holds the first
  value; the second value is stored nowhere, and \<open>get('3')\<close> returns \<open>null\<close>.
\<close>

theorem overwrite_changes_shape_and_loses_value:
  "inserts newTrie [(''1'', ''a''), (''2'', ''b''), (''3'', ''c'')] =
     Inr \<lparr>root = Some (Branch ((replicate 16 None)
            [1 := Some (Leaf 2 [] ''a''), 2 := Some (Leaf 2 [] ''b''),
             3 := Some (Leaf 3 [3] ''c'')]) None)\<rparr> \<and>
   get_mpt \<lparr>root = Some (Branch ((replicate 16 None)
            [1 := Some (Leaf 2 [] ''a''), 2 := Some (Leaf 2 [] ''b''),
             3 := Some (Leaf 3 [3] ''c'')]) None)\<rparr> ''3'' = Some ''c'' \<and>
   inserts newTrie [(''1'', ''a''), (''2'', ''b''), (''3'', ''c''), (''3'', ''d'')] =
     Inr \<lparr>root = Some (Branch ((replicate 16 None)
            [1 := Some (Leaf 2 [] ''a''), 2 := Some (Leaf 2 [] ''b''),
             3 := Some (Branch ((replicate 16 None)[3 := Some (Leaf 2 [] ''c'')]) None)]) None)\<rparr> \<and>
   get_mpt \<lparr>root = Some (Branch ((replicate 16 None)
            [1 := Some (Leaf 2 [] ''a''), 2 := Some (Leaf 2 [] ''b''),
             3 := Some (Branch ((replicate 16 None)[3 := Some (Leaf 2 [] ''c'')]) None)]) None)\<rparr> ''3'' = None"
  by code_simp

text \<open>
  What \<open>insertIntoBranch\<close> stores in the leaf it places in an empty slot, and
  \<open>insertIntoExtension\<close> in the leaf it places after a split, for every input: the run
  that still starts with the selecting nibble.
\<close>

lemma placed_leaf_keeps_selecting_nibble:
  "(remainingKey \<noteq> [] \<and> getChild children (unat (hd remainingKey)) = None \<longrightarrow>
      insertIntoBranch children branchValue remainingKey v =
        Inr (Branch (setChild children (unat (hd remainingKey)) (createLeafNode remainingKey v))
               branchValue)) \<and>
   (length (findCommonPrefix sharedNibbles remainingKey) < length sharedNibbles \<and>
    length (findCommonPrefix sharedNibbles remainingKey) < length remainingKey \<longrightarrow>
      (\<exists>children'.
         insertIntoExtension prefix sharedNibbles nextNode remainingKey v depth =
           Inr (if findCommonPrefix sharedNibbles remainingKey = [] then Branch children' None
                else createExtensionNode (findCommonPrefix sharedNibbles remainingKey)
                       (Branch children' None)) \<and>
         getChild children' (unat (remainingKey ! length (findCommonPrefix sharedNibbles remainingKey))) =
           Some (createLeafNode (drop (length (findCommonPrefix sharedNibbles remainingKey)) remainingKey) v)))"
proof (intro conjI impI)
  assume "remainingKey \<noteq> [] \<and> getChild children (unat (hd remainingKey)) = None"
  then show "insertIntoBranch children branchValue remainingKey v =
        Inr (Branch (setChild children (unat (hd remainingKey)) (createLeafNode remainingKey v))
               branchValue)"
    by (simp add: insertIntoBranch.simps Let_def)
next
  let ?C = "findCommonPrefix sharedNibbles remainingKey"
  assume a: "length ?C < length sharedNibbles \<and> length ?C < length remainingKey"
  then have hd: "hd (drop (length ?C) remainingKey) = remainingKey ! length ?C"
    by (simp add: hd_drop_conv_nth)
  from a show "\<exists>children'.
         insertIntoExtension prefix sharedNibbles nextNode remainingKey v depth =
           Inr (if ?C = [] then Branch children' None
                else createExtensionNode ?C (Branch children' None)) \<and>
         getChild children' (unat (remainingKey ! length ?C)) =
           Some (createLeafNode (drop (length ?C) remainingKey) v)"
    by (auto simp: insertIntoExtension.simps createBranchNode_def Let_def hd hd_conv_nth
        getChild_setChild)
qed

text \<open>
  C4 (the leaf placed in an empty branch slot stores \<open>R[1:]\<close>, and the leaf placed after
  an extension split stores \<open>R[|C|+1:]\<close>: the selecting nibble is consumed by the
  branch). The code does not do this. With the remaining key \<open>f9365\<close>
  \<open>insertIntoBranch\<close> places in slot \<open>f\<close> a leaf that stores \<open>f9365\<close>, not \<open>9365\<close>; after
  the split of the extension over \<open>a7\<close> by the remaining key \<open>a81\<close>
  \<open>insertIntoExtension\<close> places in slot \<open>8\<close> a leaf that stores \<open>81\<close>, not \<open>1\<close>. Both
  happen in tries built by public inserts: \<open>a7f9365\<close> after \<open>a71355\<close> and \<open>a77d337\<close>,
  and \<open>a81\<close> after the same two keys. Every other path treats the selecting nibble as
  consumed: \<open>insertIntoLeaf\<close> stores the runs without it, \<open>insertIntoBranch\<close> recurses
  with \<open>R[1:]\<close>, and lookup moves one nibble on at a branch.
\<close>

theorem new_leaf_stores_selecting_nibble:
  "insertIntoBranch (replicate 16 None) None [0xf, 9, 3, 6, 5] ''1.1ETH'' =
     Inr (Branch ((replicate 16 None)[15 := Some (Leaf 3 [0xf, 9, 3, 6, 5] ''1.1ETH'')]) None) \<and>
   insertIntoBranch (replicate 16 None) None [0xf, 9, 3, 6, 5] ''1.1ETH'' \<noteq>
     Inr (Branch ((replicate 16 None)[15 := Some (createLeafNode [9, 3, 6, 5] ''1.1ETH'')]) None) \<and>
   insertIntoExtension 0 [0xa, 7] (Branch (replicate 16 None) (Some ''w'')) [0xa, 8, 1] ''v'' 0 =
     Inr (Extension 1 [0xa] (Branch ((replicate 16 None)
            [7 := Some (Branch (replicate 16 None) (Some ''w'')),
             8 := Some (Leaf 2 [8, 1] ''v'')]) None)) \<and>
   insertIntoExtension 0 [0xa, 7] (Branch (replicate 16 None) (Some ''w'')) [0xa, 8, 1] ''v'' 0 \<noteq>
     Inr (Extension 1 [0xa] (Branch ((replicate 16 None)
            [7 := Some (Branch (replicate 16 None) (Some ''w'')),
             8 := Some (createLeafNode [1] ''v'')]) None)) \<and>
   inserts newTrie [(''a71355'', ''45.0ETH''), (''a77d337'', ''1.00WEI''), (''a7f9365'', ''1.1ETH'')] =
     Inr \<lparr>root = Some (Extension 0 [0xa, 7] (Branch ((replicate 16 None)
            [1 := Some (Leaf 3 [3, 5, 5] ''45.0ETH''),
             7 := Some (Leaf 2 [0xd, 3, 3, 7] ''1.00WEI''),
             15 := Some (Leaf 3 [0xf, 9, 3, 6, 5] ''1.1ETH'')]) None))\<rparr> \<and>
   inserts newTrie [(''a71355'', ''45.0ETH''), (''a77d337'', ''1.00WEI''), (''a81'', ''v'')] =
     Inr \<lparr>root = Some (Extension 1 [0xa] (Branch ((replicate 16 None)
            [7 := Some (Branch ((replicate 16 None)
                   [1 := Some (Leaf 3 [3, 5, 5] ''45.0ETH''),
                    7 := Some (Leaf 2 [0xd, 3, 3, 7] ''1.00WEI'')]) None),
             8 := Some (Leaf 2 [8, 1] ''v'')]) None))\<rparr>"
  by code_simp

text \<open>
  What \<open>getRecursive\<close> returns at a leaf, for every input: the value when the stored run
  is the rest of the key, and also when it is the rest of the key with the nibble
  before it.
\<close>

lemma getRecursive_leaf:
  "getRecursive (Leaf prefix keyEnd leafValue) keyNibbles depth =
     (if keyEnd = drop depth keyNibbles
         \<or> (0 < depth \<and> depth \<le> length keyNibbles \<and> keyEnd = drop (depth - 1) keyNibbles)
      then Some leafValue else None)"
proof (cases "0 < depth \<and> depth \<le> length keyNibbles")
  case True
  then have d: "drop (depth - 1) keyNibbles = keyNibbles ! (depth - 1) # drop depth keyNibbles"
    using drop_pred [of depth keyNibbles] by blast
  show ?thesis using True d
    by (auto simp: arraysEqual_iff Let_def findBranchIndex_pred)
next
  case False
  show ?thesis using False by (auto simp: arraysEqual_iff Let_def findBranchIndex_pred)
qed

text \<open>
  C5 (at a leaf with stored run \<open>S\<close>, lookup returns the value iff the key nibbles not
  yet consumed equal \<open>S\<close>, and reports absent otherwise). The code does not do this.
  After \<open>insert('7711', 'a')\<close> and \<open>insert('7722', 'b')\<close> the leaf in slot 1 stores
  the run \<open>1\<close>. \<open>get('771')\<close> reaches it with all three nibbles consumed: the nibbles
  not yet consumed are none, the stored run is longer, so \<open>getRecursive\<close> puts the last
  consumed nibble \<open>1\<close> back in front, finds the run equal and returns \<open>a\<close> for a key
  that was never inserted. The same happens at a leaf that keeps its selecting nibble:
  the leaf with the run \<open>f9365\<close>, reached for the key \<open>a7f9365\<close> with three nibbles
  consumed, is compared with \<open>f9365\<close> although \<open>9365\<close> is what is left of the key, and
  in the trie of the four example keys it also answers \<open>a7ff9365\<close>, never inserted.
\<close>

theorem leaf_lookup_answers_keys_never_inserted:
  "inserts newTrie [(''7711'', ''a''), (''7722'', ''b'')] =
     Inr \<lparr>root = Some (Extension 0 [7, 7] (Branch ((replicate 16 None)
            [1 := Some (Leaf 3 [1] ''a''), 2 := Some (Leaf 3 [2] ''b'')]) None))\<rparr> \<and>
   getRecursive (Leaf 3 [1] ''a'') [7, 7, 1] 3 = Some ''a'' \<and>
   drop 3 [7, 7, 1 :: nibble] \<noteq> [1] \<and>
   get_mpt \<lparr>root = Some (Extension 0 [7, 7] (Branch ((replicate 16 None)
            [1 := Some (Leaf 3 [1] ''a''), 2 := Some (Leaf 3 [2] ''b'')]) None))\<rparr> ''771'' = Some ''a'' \<and>
   getRecursive (Leaf 3 [0xf, 9, 3, 6, 5] ''1.1ETH'') [0xa, 7, 0xf, 9, 3, 6, 5] 3 = Some ''1.1ETH'' \<and>
   drop 3 [0xa, 7, 0xf, 9, 3, 6, 5 :: nibble] \<noteq> [0xf, 9, 3, 6, 5] \<and>
   (case inserts newTrie [(''a71355'', ''45.0ETH''), (''a77d337'', ''1.00WEI''),
                          (''a7f9365'', ''1.1ETH''), (''a77d397'', ''0.12ETH'')] of
      Inl e \<Rightarrow> False
    | Inr t \<Rightarrow> get_mpt t ''a7f9365'' = Some ''1.1ETH'' \<and> get_mpt t ''a7ff9365'' = Some ''1.1ETH'')"
  by code_simp

text \<open>
  C6 (the root hash does not depend on the order of insertion). The code does not do
  this. The keys \<open>1\<close>, \<open>2\<close>, \<open>3\<close> inserted in this order and in the order \<open>1\<close>, \<open>3\<close>,
  \<open>2\<close> give two different tries: the leaf made by \<open>insertIntoLeaf\<close> stores the run
  without the selecting nibble, the leaf made by \<open>insertIntoBranch\<close> stores it with the
  selecting nibble, and which key meets which function depends on the order. For every
  hash function \<open>H\<close> the two root hashes are \<open>H\<close> of the two contents shown, which
  differ unless \<open>H\<close> collides on the leaves' contents; with the content itself as its
  digest the two root hashes differ.
\<close>

theorem root_hash_depends_on_insertion_order:
  "inserts newTrie [(''1'', ''a''), (''2'', ''b''), (''3'', ''c'')] =
     Inr \<lparr>root = Some (Branch ((replicate 16 None)
            [1 := Some (Leaf 2 [] ''a''), 2 := Some (Leaf 2 [] ''b''),
             3 := Some (Leaf 3 [3] ''c'')]) None)\<rparr> \<and>
   inserts newTrie [(''1'', ''a''), (''3'', ''c''), (''2'', ''b'')] =
     Inr \<lparr>root = Some (Branch ((replicate 16 None)
            [1 := Some (Leaf 2 [] ''a''), 2 := Some (Leaf 3 [2] ''b''),
             3 := Some (Leaf 2 [] ''c'')]) None)\<rparr> \<and>
   getRootHash H \<lparr>root = Some (Branch ((replicate 16 None)
            [1 := Some (Leaf 2 [] ''a''), 2 := Some (Leaf 2 [] ''b''),
             3 := Some (Leaf 3 [3] ''c'')]) None)\<rparr> = H (H ''2a'' @ H ''2b'' @ H ''33c'') \<and>
   getRootHash H \<lparr>root = Some (Branch ((replicate 16 None)
            [1 := Some (Leaf 2 [] ''a''), 2 := Some (Leaf 3 [2] ''b''),
             3 := Some (Leaf 2 [] ''c'')]) None)\<rparr> = H (H ''2a'' @ H ''32b'' @ H ''2c'') \<and>
   getRootHash (\<lambda>content. content) \<lparr>root = Some (Branch ((replicate 16 None)
            [1 := Some (Leaf 2 [] ''a''), 2 := Some (Leaf 2 [] ''b''),
             3 := Some (Leaf 3 [3] ''c'')]) None)\<rparr> \<noteq>
   getRootHash (\<lambda>content. content) \<lparr>root = Some (Branch ((replicate 16 None)
            [1 := Some (Leaf 2 [] ''a''), 2 := Some (Leaf 3 [2] ''b''),
             3 := Some (Leaf 2 [] ''c'')]) None)\<rparr>"
proof -
  have a: "inserts newTrie [(''1'', ''a''), (''2'', ''b''), (''3'', ''c'')] =
     Inr \<lparr>root = Some (Branch ((replicate 16 None)
            [1 := Some (Leaf 2 [] ''a''), 2 := Some (Leaf 2 [] ''b''),
             3 := Some (Leaf 3 [3] ''c'')]) None)\<rparr>" by code_simp
  have b: "inserts newTrie [(''1'', ''a''), (''3'', ''c''), (''2'', ''b'')] =
     Inr \<lparr>root = Some (Branch ((replicate 16 None)
            [1 := Some (Leaf 2 [] ''a''), 2 := Some (Leaf 3 [2] ''b''),
             3 := Some (Leaf 2 [] ''c'')]) None)\<rparr>" by code_simp
  have c: "getRootHash H \<lparr>root = Some (Branch ((replicate 16 None)
            [1 := Some (Leaf 2 [] ''a''), 2 := Some (Leaf 2 [] ''b''),
             3 := Some (Leaf 3 [3] ''c'')]) None)\<rparr> = H (H ''2a'' @ H ''2b'' @ H ''33c'')"
    by (simp add: getRootHash_def replicate_16 joinNibbles_def hexChar_def hexDigits_def)
  have d: "getRootHash H \<lparr>root = Some (Branch ((replicate 16 None)
            [1 := Some (Leaf 2 [] ''a''), 2 := Some (Leaf 3 [2] ''b''),
             3 := Some (Leaf 2 [] ''c'')]) None)\<rparr> = H (H ''2a'' @ H ''32b'' @ H ''2c'')"
    by (simp add: getRootHash_def replicate_16 joinNibbles_def hexChar_def hexDigits_def)
  have e: "getRootHash (\<lambda>content. content) \<lparr>root = Some (Branch ((replicate 16 None)
            [1 := Some (Leaf 2 [] ''a''), 2 := Some (Leaf 2 [] ''b''),
             3 := Some (Leaf 3 [3] ''c'')]) None)\<rparr> \<noteq>
   getRootHash (\<lambda>content. content) \<lparr>root = Some (Branch ((replicate 16 None)
            [1 := Some (Leaf 2 [] ''a''), 2 := Some (Leaf 3 [2] ''b''),
             3 := Some (Leaf 2 [] ''c'')]) None)\<rparr>"
    by (simp add: getRootHash_def replicate_16 joinNibbles_def hexChar_def hexDigits_def)
  from a b c d e show ?thesis by simp
qed

text \<open>
  The content a branch hashes, for every hash function: the digests of the children it
  holds, in slot order, then its value or nothing. An empty slot adds nothing to it.
\<close>

lemma calculateNodeHash_branch:
  "calculateNodeHash H (Branch children branchValue) =
     H (concat (map (calculateNodeHash H) (presentChildren children))
        @ (case branchValue of None \<Rightarrow> [] | Some s \<Rightarrow> s))"
  by (simp add: concat_child_hashes)

text \<open>
  C7 (a branch's digest is the hash of the child digests in slot order, an empty slot
  contributing a placeholder rather than being left out, then the value or empty; so
  the slot position is hash-significant: the same children at different slot indices
  give different digests). The code does not do this. The placeholder of an empty slot
  is the empty string and the digests are joined with nothing between them, so the
  slot index of a child does not enter the content. The tries built by
  \<open>insert('1','a'); insert('2','b')\<close> and by \<open>insert('3','a'); insert('4','b')\<close> are
  branches with the same two children in different slots; they answer \<open>get('1')\<close>
  differently, and for every hash function their root hashes are equal.
\<close>

theorem branch_digest_ignores_slot_index:
  "inserts newTrie [(''1'', ''a''), (''2'', ''b'')] =
     Inr \<lparr>root = Some (Branch ((replicate 16 None)
            [1 := Some (Leaf 2 [] ''a''), 2 := Some (Leaf 2 [] ''b'')]) None)\<rparr> \<and>
   inserts newTrie [(''3'', ''a''), (''4'', ''b'')] =
     Inr \<lparr>root = Some (Branch ((replicate 16 None)
            [3 := Some (Leaf 2 [] ''a''), 4 := Some (Leaf 2 [] ''b'')]) None)\<rparr> \<and>
   get_mpt \<lparr>root = Some (Branch ((replicate 16 None)
            [1 := Some (Leaf 2 [] ''a''), 2 := Some (Leaf 2 [] ''b'')]) None)\<rparr> ''1'' = Some ''a'' \<and>
   get_mpt \<lparr>root = Some (Branch ((replicate 16 None)
            [3 := Some (Leaf 2 [] ''a''), 4 := Some (Leaf 2 [] ''b'')]) None)\<rparr> ''1'' = None \<and>
   (\<forall>H. getRootHash H \<lparr>root = Some (Branch ((replicate 16 None)
            [1 := Some (Leaf 2 [] ''a''), 2 := Some (Leaf 2 [] ''b'')]) None)\<rparr> =
        getRootHash H \<lparr>root = Some (Branch ((replicate 16 None)
            [3 := Some (Leaf 2 [] ''a''), 4 := Some (Leaf 2 [] ''b'')]) None)\<rparr>) \<and>
   (\<forall>H. getRootHash H \<lparr>root = Some (Branch ((replicate 16 None)
            [1 := Some (Leaf 2 [] ''a''), 2 := Some (Leaf 2 [] ''b'')]) None)\<rparr> =
        H (H ''2a'' @ H ''2b''))"
proof -
  have a: "inserts newTrie [(''1'', ''a''), (''2'', ''b'')] =
     Inr \<lparr>root = Some (Branch ((replicate 16 None)
            [1 := Some (Leaf 2 [] ''a''), 2 := Some (Leaf 2 [] ''b'')]) None)\<rparr>" by code_simp
  have b: "inserts newTrie [(''3'', ''a''), (''4'', ''b'')] =
     Inr \<lparr>root = Some (Branch ((replicate 16 None)
            [3 := Some (Leaf 2 [] ''a''), 4 := Some (Leaf 2 [] ''b'')]) None)\<rparr>" by code_simp
  have c: "get_mpt \<lparr>root = Some (Branch ((replicate 16 None)
            [1 := Some (Leaf 2 [] ''a''), 2 := Some (Leaf 2 [] ''b'')]) None)\<rparr> ''1'' = Some ''a''"
    by code_simp
  have d: "get_mpt \<lparr>root = Some (Branch ((replicate 16 None)
            [3 := Some (Leaf 2 [] ''a''), 4 := Some (Leaf 2 [] ''b'')]) None)\<rparr> ''1'' = None"
    by code_simp
  have e: "\<forall>H. getRootHash H \<lparr>root = Some (Branch ((replicate 16 None)
            [1 := Some (Leaf 2 [] ''a''), 2 := Some (Leaf 2 [] ''b'')]) None)\<rparr> =
        H (H ''2a'' @ H ''2b'')"
    by (simp add: getRootHash_def replicate_16 joinNibbles_def)
  have f: "\<forall>H. getRootHash H \<lparr>root = Some (Branch ((replicate 16 None)
            [3 := Some (Leaf 2 [] ''a''), 4 := Some (Leaf 2 [] ''b'')]) None)\<rparr> =
        H (H ''2a'' @ H ''2b'')"
    by (simp add: getRootHash_def replicate_16 joinNibbles_def)
  from a b c d e f show ?thesis by simp
qed

text \<open>
  C8 (a node of an unknown kind met during insertion or lookup aborts the operation
  and is never turned into "not found"). As amended: during insertion it aborts the
  operation: \<open>insertRecursive\<close> raises the error at the unknown node, and
  \<open>insertIntoBranch\<close>, \<open>insertIntoExtension\<close> and \<open>insert\<close> pass on the error of the
  call they make. During lookup the operation does not abort: \<open>getRecursive\<close> returns
  \<open>null\<close> at the unknown node, the result of a key that is not found.
\<close>

theorem unknown_node_aborts_insertion_only:
  "insertRecursive Other keyNibbles v depth = Inl UnknownNodeType \<and>
   (remainingKey \<noteq> [] \<and> getChild children (unat (hd remainingKey)) = Some child \<and>
    insertRecursive child (tl remainingKey) v 0 = Inl e \<longrightarrow>
      insertIntoBranch children branchValue remainingKey v = Inl e) \<and>
   (length (findCommonPrefix sharedNibbles remainingKey) = length sharedNibbles \<and>
    insertRecursive nextNode (drop (length sharedNibbles) remainingKey) v 0 = Inl e \<longrightarrow>
      insertIntoExtension prefix sharedNibbles nextNode remainingKey v depth = Inl e) \<and>
   (root t = Some r \<and> insertRecursive r (stringToNibbles key) v 0 = Inl e \<longrightarrow>
      insert_mpt t key v = Inl e) \<and>
   getRecursive Other keyNibbles depth = None \<and>
   get_mpt \<lparr>root = Some Other\<rparr> key = None"
  by (simp add: insertIntoBranch.simps insertIntoExtension.simps insert_mpt_def get_mpt_def Let_def)

text \<open>
  The amended C8 at an unknown node in slot \<open>7\<close> of a branch under an extension over
  \<open>a\<close>, for the key \<open>a71\<close>: the insertion aborts, the lookup returns \<open>null\<close>.
\<close>

theorem unknown_node_aborts_insertion_only_witness:
  "insert_mpt \<lparr>root = Some (Extension 0 [0xa] (Branch ((replicate 16 None)[7 := Some Other]) None))\<rparr>
     ''a71'' ''v'' = Inl UnknownNodeType \<and>
   get_mpt \<lparr>root = Some (Extension 0 [0xa] (Branch ((replicate 16 None)[7 := Some Other]) None))\<rparr>
     ''a71'' = None"
proof -
  have k: "stringToNibbles ''a71'' = [0xa, 7, 1]" by code_simp
  have c: "getChild ((replicate 16 None)[7 := Some Other]) (unat (hd [7, 1 :: nibble])) = Some Other"
    by code_simp
  have a: "insertRecursive Other (tl [7, 1]) ''v'' 0 = Inl UnknownNodeType"
    using unknown_node_aborts_insertion_only by blast
  have b: "insertIntoBranch ((replicate 16 None)[7 := Some Other]) None [7, 1] ''v'' = Inl UnknownNodeType"
    using unknown_node_aborts_insertion_only
      [where v = "''v''" and remainingKey = "[7, 1]" and e = UnknownNodeType
         and children = "(replicate 16 None)[7 := Some Other]" and child = Other
         and branchValue = None]
      c a by simp
  have x: "insertIntoExtension 0 [0xa] (Branch ((replicate 16 None)[7 := Some Other]) None)
             [0xa, 7, 1] ''v'' 0 = Inl UnknownNodeType"
    using unknown_node_aborts_insertion_only
      [where v = "''v''" and remainingKey = "[0xa, 7, 1]" and e = UnknownNodeType
         and sharedNibbles = "[0xa]" and prefix = 0 and depth = 0
         and nextNode = "Branch ((replicate 16 None)[7 := Some Other]) None"]
      b by simp
  have r: "insert_mpt \<lparr>root = Some (Extension 0 [0xa] (Branch ((replicate 16 None)[7 := Some Other]) None))\<rparr>
     ''a71'' ''v'' = Inl UnknownNodeType"
    using unknown_node_aborts_insertion_only
      [where v = "''v''" and e = UnknownNodeType and key = "''a71''"
         and t = "\<lparr>root = Some (Extension 0 [0xa] (Branch ((replicate 16 None)[7 := Some Other]) None))\<rparr>"
         and r = "Extension 0 [0xa] (Branch ((replicate 16 None)[7 := Some Other]) None)"]
      x k by simp
  have g: "get_mpt \<lparr>root = Some (Extension 0 [0xa] (Branch ((replicate 16 None)[7 := Some Other]) None))\<rparr>
     ''a71'' = None" by code_simp
  from r g show ?thesis by simp
qed

text \<open>
  C8 as stated fails for lookup: with an unknown node as the root, or in the slot the
  key selects, \<open>get\<close> returns \<open>null\<close>, as it does for a key that is not in a trie of
  known nodes.
\<close>

theorem lookup_of_unknown_node_is_not_found:
  "get_mpt \<lparr>root = Some Other\<rparr> ''a7'' = None \<and>
   get_mpt \<lparr>root = Some (Branch ((replicate 16 None)[0xa := Some Other]) None)\<rparr> ''a7'' = None \<and>
   get_mpt \<lparr>root = Some (Branch ((replicate 16 None)[0xa := Some (Leaf 2 [] ''v'')]) None)\<rparr> ''a7'' = None"
  by code_simp

text \<open>
  C9. Every sequence of public inserts from the empty trie runs to its end and gives a
  trie \<open>t\<close>. When \<open>t\<close> has a root \<open>r\<close>, then \<open>r\<close> is well-formed (no extension has an
  empty run), and for every key: \<open>getRecursive\<close> on \<open>r\<close> is the first component of its
  copy with a counter, the counter is \<open>getRecursive_depth\<close>, and it is at most the
  number of nibbles of the key; the same for \<open>insertRecursive\<close> and
  \<open>insertRecursive_depth\<close>. \<open>insert\<close> of any key into \<open>t\<close> returns, and the key has at
  most twice as many nibbles as it has bytes. (That \<open>getRecursive\<close> and
  \<open>insertRecursive\<close> return on every input is their termination proof above.)
\<close>

theorem recursion_depth_bounded_by_key_length:
  "\<exists>t. inserts newTrie ops = Inr t \<and>
        (\<forall>r. root t = Some r \<longrightarrow>
           wellFormed r \<and>
           getRecursive_traced r (stringToNibbles key) 0 =
             (getRecursive r (stringToNibbles key) 0,
              getRecursive_depth r (stringToNibbles key) 0) \<and>
           getRecursive_depth r (stringToNibbles key) 0 \<le> length (stringToNibbles key) \<and>
           insertRecursive_traced r (stringToNibbles key) v 0 =
             (insertRecursive r (stringToNibbles key) v 0,
              insertRecursive_depth r (stringToNibbles key) 0) \<and>
           insertRecursive_depth r (stringToNibbles key) 0 \<le> length (stringToNibbles key)) \<and>
        (\<exists>t'. insert_mpt t key v = Inr t') \<and>
        length (stringToNibbles key) \<le> 2 * length key"
proof -
  have "\<forall>r. root newTrie = Some r \<longrightarrow> wellFormed r" by (simp add: newTrie_def)
  from inserts_wellFormed [OF this, of ops]
  obtain t where t: "inserts newTrie ops = Inr t" and wf: "\<forall>r. root t = Some r \<longrightarrow> wellFormed r"
    by blast
  have "\<exists>t'. insert_mpt t key v = Inr t'"
    using insert_mpt_wellFormed [OF wf, of key v] by blast
  with t wf getRecursive_depth_le [of _ "stringToNibbles key" 0]
       insertRecursive_depth_le [of _ "stringToNibbles key" 0]
       stringToNibbles_length [of key]
       getRecursive_traced_eq [of _ "stringToNibbles key" 0]
       insert_traced_eq(1) [of _ "stringToNibbles key" v 0]
  show ?thesis by auto
qed

text \<open>
  C9 at the trie holding \<open>a71355\<close> and \<open>a77d337\<close> and the key \<open>a77d397\<close> of seven
  nibbles: lookup and insertion each nest two calls (the extension, then the branch).
\<close>

theorem recursion_depth_bounded_witness:
  "inserts newTrie [(''a71355'', ''45.0ETH''), (''a77d337'', ''1.00WEI'')] =
     Inr \<lparr>root = Some (Extension 0 [0xa, 7] (Branch ((replicate 16 None)
            [1 := Some (Leaf 3 [3, 5, 5] ''45.0ETH''),
             7 := Some (Leaf 2 [0xd, 3, 3, 7] ''1.00WEI'')]) None))\<rparr> \<and>
   getRecursive_traced (Extension 0 [0xa, 7] (Branch ((replicate 16 None)
            [1 := Some (Leaf 3 [3, 5, 5] ''45.0ETH''),
             7 := Some (Leaf 2 [0xd, 3, 3, 7] ''1.00WEI'')]) None))
       (stringToNibbles ''a77d397'') 0 = (None, 2) \<and>
   getRecursive (Extension 0 [0xa, 7] (Branch ((replicate 16 None)
            [1 := Some (Leaf 3 [3, 5, 5] ''45.0ETH''),
             7 := Some (Leaf 2 [0xd, 3, 3, 7] ''1.00WEI'')]) None))
       (stringToNibbles ''a77d397'') 0 = None \<and>
   getRecursive_depth (Extension 0 [0xa, 7] (Branch ((replicate 16 None)
            [1 := Some (Leaf 3 [3, 5, 5] ''45.0ETH''),
             7 := Some (Leaf 2 [0xd, 3, 3, 7] ''1.00WEI'')]) None))
       (stringToNibbles ''a77d397'') 0 \<le> length (stringToNibbles ''a77d397'') \<and>
   snd (insertRecursive_traced (Extension 0 [0xa, 7] (Branch ((replicate 16 None)
            [1 := Some (Leaf 3 [3, 5, 5] ''45.0ETH''),
             7 := Some (Leaf 2 [0xd, 3, 3, 7] ''1.00WEI'')]) None))
       (stringToNibbles ''a77d397'') ''0.12ETH'' 0) = 2 \<and>
   insertRecursive_depth (Extension 0 [0xa, 7] (Branch ((replicate 16 None)
            [1 := Some (Leaf 3 [3, 5, 5] ''45.0ETH''),
             7 := Some (Leaf 2 [0xd, 3, 3, 7] ''1.00WEI'')]) None))
       (stringToNibbles ''a77d397'') 0 \<le> length (stringToNibbles ''a77d397'') \<and>
   length (stringToNibbles ''a77d397'') = 7 \<and>
   length (stringToNibbles ''a77d397'') \<le> 2 * length ''a77d397''"
proof -
  have h: "inserts newTrie [(''a71355'', ''45.0ETH''), (''a77d337'', ''1.00WEI'')] =
     Inr \<lparr>root = Some (Extension 0 [0xa, 7] (Branch ((replicate 16 None)
            [1 := Some (Leaf 3 [3, 5, 5] ''45.0ETH''),
             7 := Some (Leaf 2 [0xd, 3, 3, 7] ''1.00WEI'')]) None))\<rparr>"
    by code_simp
  have g: "getRecursive_traced (Extension 0 [0xa, 7] (Branch ((replicate 16 None)
            [1 := Some (Leaf 3 [3, 5, 5] ''45.0ETH''),
             7 := Some (Leaf 2 [0xd, 3, 3, 7] ''1.00WEI'')]) None))
       (stringToNibbles ''a77d397'') 0 = (None, 2)"
    by code_simp
  have i: "snd (insertRecursive_traced (Extension 0 [0xa, 7] (Branch ((replicate 16 None)
            [1 := Some (Leaf 3 [3, 5, 5] ''45.0ETH''),
             7 := Some (Leaf 2 [0xd, 3, 3, 7] ''1.00WEI'')]) None))
       (stringToNibbles ''a77d397'') ''0.12ETH'' 0) = 2"
    by code_simp
  have l: "length (stringToNibbles ''a77d397'') = 7" by code_simp
  show ?thesis
    using h g i l recursion_depth_bounded_by_key_length
      [of "[(''a71355'', ''45.0ETH''), (''a77d337'', ''1.00WEI'')]" "''a77d397''" "''0.12ETH''"]
    by auto
qed

text \<open>
  C10. The empty key does not match the hexadecimal pattern and encodes to the empty
  nibble sequence; \<open>insert("", v)\<close> on a fresh trie makes the root a Leaf with the empty
  suffix (tag Leaf-even), and \<open>get("")\<close> on that trie returns \<open>v\<close>.
\<close>

theorem empty_key_round_trip:
  "\<not> looksHexadecimal [] \<and> stringToNibbles [] = [] \<and>
   insert_mpt newTrie [] v = Inr \<lparr>root = Some (Leaf LEAF_EVEN [] v)\<rparr> \<and>
   get_mpt \<lparr>root = Some (Leaf LEAF_EVEN [] v)\<rparr> [] = Some v"
  by (simp add: looksHexadecimal_def stringToNibbles_def insert_mpt_def newTrie_def
      createLeafNode_def encodePrefix_def get_mpt_def arraysEqual_iff)

end
